theory Spec2Isabelle
  imports Main "HOL-Library.Sublist"
begin

section \<open>Python library functions used by the program\<close>

text \<open>
  Strings are \<open>char list\<close>. The functions of this section are models of the Python
  built-ins the program calls, restricted to ASCII text: \<open>str.lower\<close> and \<open>int(str)\<close>.
  Letters and digits outside ASCII are left alone, and the limit that recent Python
  versions put on the number of digits \<open>int\<close> accepts is not modelled.
\<close>

definition is_upper :: "char \<Rightarrow> bool" where
  "is_upper c = ((65::nat) \<le> of_char c \<and> of_char c \<le> (90::nat))"

definition char_lower :: "char \<Rightarrow> char" where
  "char_lower c = (if is_upper c then char_of (of_char c + (32::nat)) else c)"

text \<open>\<open>s.lower()\<close>: the letters A to Z become a to z, every other character is kept.\<close>

definition lower :: "string \<Rightarrow> string" where
  "lower s = map char_lower s"

definition is_digit :: "char \<Rightarrow> bool" where
  "is_digit c = ((48::nat) \<le> of_char c \<and> of_char c \<le> (57::nat))"

definition digit_val :: "char \<Rightarrow> int" where
  "digit_val c = int (of_char c) - 48"

text \<open>The characters \<open>int\<close> strips from both ends: tab to carriage return, the
  separators 28 to 31, and the space.\<close>

definition is_space :: "char \<Rightarrow> bool" where
  "is_space c = (let n = (of_char c :: nat) in (9 \<le> n \<and> n \<le> 13) \<or> (28 \<le> n \<and> n \<le> 32))"

definition strip :: "string \<Rightarrow> string" where
  "strip s = rev (dropWhile is_space (rev (dropWhile is_space s)))"

text \<open>
  The digits of a decimal literal after its first digit: digits, each optionally preceded
  by one underscore. \<open>None\<close> is Python's \<open>ValueError\<close>.
\<close>

fun py_digits :: "int \<Rightarrow> string \<Rightarrow> int option" where
  "py_digits acc [] = Some acc"
| "py_digits acc [c] = (if is_digit c then Some (10 * acc + digit_val c) else None)"
| "py_digits acc (c # d # ds) =
     (if is_digit c then py_digits (10 * acc + digit_val c) (d # ds)
      else if c = CHR ''_'' \<and> is_digit d then py_digits (10 * acc + digit_val d) ds
      else None)"

definition py_unsigned :: "string \<Rightarrow> int option" where
  "py_unsigned s =
     (case s of [] \<Rightarrow> None
      | c # cs \<Rightarrow> if is_digit c then py_digits (digit_val c) cs else None)"

text \<open>\<open>int(s)\<close> for a string \<open>s\<close>, base ten: surrounding whitespace, an optional sign,
  then the digits.\<close>

definition py_int :: "string \<Rightarrow> int option" where
  "py_int s =
     (case strip s of [] \<Rightarrow> None
      | c # cs \<Rightarrow>
          if c = CHR ''-'' then map_option uminus (py_unsigned cs)
          else if c = CHR ''+'' then py_unsigned cs
          else py_unsigned (c # cs))"

section \<open>firmware\_parser.py\<close>

subsection \<open>The data classes\<close>

record Image =
  filename :: string
  md5 :: string
  nxh_version :: string
  l_bud_version :: string
  r_bud_version :: string
  image_revision :: string
  build_id :: string
  image_length :: int
  target :: int
  subid :: int

record Release =
  channel :: string
  date :: string
  httphost :: string
  urlpath :: string
  release_revision :: string
  images :: "Image list"

record Hardware =
  hardware_revision :: string
  releases :: "Release list"

record Device =
  device_id :: string
  productname :: string
  hardware :: "Hardware list"

record FirmwareIndex =
  index_revision :: string
  devices :: "Device list"

text \<open>\<open>FirmwareIndex()\<close>: the index with every field at its default.\<close>

definition FirmwareIndex_default :: FirmwareIndex where
  "FirmwareIndex_default = \<lparr>index_revision = [], devices = []\<rparr>"

subsection \<open>The element tree\<close>

text \<open>
  An \<open>xml.etree.ElementTree.Element\<close>: its tag, its attributes and its child elements
  in document order. \<open>get\<close> is \<open>Element.get(key, default)\<close>.
\<close>

datatype element = Element (tag: string) (attrib: "(string \<times> string) list") (children: "element list")

definition get :: "element \<Rightarrow> string \<Rightarrow> string \<Rightarrow> string" where
  "get e key dflt = (case map_of (attrib e) key of Some v \<Rightarrow> v | None \<Rightarrow> dflt)"

subsection \<open>The parser\<close>

text \<open>\<open>try: x = int(e.get(key, "0")) except ValueError: x = 0\<close>\<close>

definition int_attr :: "element \<Rightarrow> string \<Rightarrow> int" where
  "int_attr e key = (case py_int (get e key ''0'') of Some n \<Rightarrow> n | None \<Rightarrow> 0)"

definition parse_image :: "element \<Rightarrow> Image" where
  "parse_image img_elem =
     \<lparr>filename = get img_elem ''FILENAME'' [],
      md5 = get img_elem ''MD5'' [],
      nxh_version = get img_elem ''NXH_VERSION'' [],
      l_bud_version = get img_elem ''L_BUD_VERSION'' [],
      r_bud_version = get img_elem ''R_BUD_VERSION'' [],
      image_revision = get img_elem ''REVISION'' [],
      build_id = get img_elem ''BUILD_ID'' [],
      image_length = int_attr img_elem ''LENGTH'',
      target = int_attr img_elem ''TARGET'',
      subid = int_attr img_elem ''SUBID''\<rparr>"

definition parse_release :: "element \<Rightarrow> Release" where
  "parse_release rel_elem =
     \<lparr>channel = get rel_elem ''CHANNEL'' [],
      date = get rel_elem ''DATE'' [],
      httphost = get rel_elem ''HTTPHOST'' [],
      urlpath = get rel_elem ''URLPATH'' [],
      release_revision = get rel_elem ''REVISION'' [],
      images = map parse_image (filter (\<lambda>e. tag e = ''IMAGE'') (children rel_elem))\<rparr>"

definition parse_hardware :: "element \<Rightarrow> Hardware" where
  "parse_hardware hw_elem =
     \<lparr>hardware_revision = get hw_elem ''REVISION'' [],
      releases = map parse_release (filter (\<lambda>e. tag e = ''RELEASE'') (children hw_elem))\<rparr>"

definition parse_device :: "element \<Rightarrow> Device" where
  "parse_device device_elem =
     \<lparr>device_id = get device_elem ''ID'' [],
      productname = get device_elem ''PRODUCTNAME'' [],
      hardware = map parse_hardware (filter (\<lambda>e. tag e = ''HARDWARE'') (children device_elem))\<rparr>"

definition parse_root :: "element \<Rightarrow> FirmwareIndex" where
  "parse_root root =
     \<lparr>index_revision = get root ''REVISION'' [],
      devices = map parse_device (filter (\<lambda>e. tag e = ''DEVICE'') (children root))\<rparr>"


subsection \<open>Exceptions and console output\<close>

text \<open>
  The exceptions that the library calls of the program raise. \<open>HTTPError\<close> (a
  non-success status) is a subclass of \<open>URLError\<close>.
\<close>

datatype exn =
    URLError | HTTPError nat | TimeoutError | ConnectionResetError
  | ValueError | UnicodeDecodeError | ParseError
  | FileNotFoundError | FileExistsError | IsADirectoryError | NotADirectoryError

fun is_URLError :: "exn \<Rightarrow> bool" where
  "is_URLError URLError = True"
| "is_URLError (HTTPError c) = True"
| "is_URLError e = False"

text \<open>
  One constructor for each \<open>print\<close> of the program, with the values it interpolates:
  \<^item> \<open>ParseFailed\<close>: "Error: Could not parse XML content" and "Details: ..."
  \<^item> \<open>StartingDownload\<close>, \<open>IndexRevisionLine\<close>, \<open>DeviceLine\<close>, \<open>HardwareLine\<close>,
    \<open>ReleaseLine\<close>, \<open>DownloadCompleted\<close>: the lines of \<open>download_all\<close>
  \<^item> \<open>Checking\<close>, \<open>AlreadyDownloaded\<close> ("Already downloaded (MD5 valid)"),
    \<open>ReDownloading\<close> ("File exists but MD5 invalid, re-downloading..."), \<open>Downloading\<close>,
    \<open>DownloadedOk\<close> ("Downloaded successfully"), \<open>Md5Passed\<close>, \<open>Md5Failed\<close>,
    \<open>DownloadFailed\<close>: the lines of \<open>download_release\<close>
  \<^item> \<open>DirError\<close>: "Error creating directory ..."
  \<^item> \<open>Progress\<close> (bytes received, declared total), \<open>ProgressEnd\<close>, \<open>UrlErrorMsg\<close>
    ("URL error: ..."), \<open>DownloadErrorMsg\<close> ("Download error: ..."): \<open>download_file\<close>
    and \<open>download_index_xml\<close>
  \<^item> \<open>Md5Error\<close>: "Error calculating MD5 for ..."
  \<^item> \<open>ExpectedMd5\<close>, \<open>CalculatedMd5\<close>: the two lines of \<open>validate_md5\<close>
  \<^item> \<open>Banner\<close>, \<open>IndexUrlLine\<close>, \<open>OutputDirLine\<close>, \<open>DownloadingIndex\<close>,
    \<open>FailedIndex\<close> ("Error: Failed to download firmware index"), \<open>ParsingIndex\<close>,
    \<open>NoDevices\<close> ("Error: No devices found in XML file"), \<open>FoundDevices\<close>: \<open>main\<close>
\<close>

datatype report =
    ParseFailed exn
  | StartingDownload | IndexRevisionLine string | DeviceLine string string
  | HardwareLine string | ReleaseLine string string string | DownloadCompleted
  | Checking string | AlreadyDownloaded | ReDownloading | Downloading string
  | DownloadedOk | Md5Passed | Md5Failed | DownloadFailed
  | DirError string exn
  | Progress nat int | ProgressEnd | UrlErrorMsg exn | DownloadErrorMsg exn
  | Md5Error string exn
  | ExpectedMd5 string | CalculatedMd5 string
  | Banner | IndexUrlLine string | OutputDirLine string | DownloadingIndex
  | FailedIndex | ParsingIndex | NoDevices | FoundDevices nat

subsection \<open>The library outside the program\<close>

text \<open>
  What \<open>urllib.request.urlopen\<close> does with one request: it raises (\<open>Refused\<close>: a
  connection error, a timeout, a non-success status, a URL it cannot use), or it returns a
  response with its \<open>content-length\<close> header, the chunks that successive \<open>read(65536)\<close>
  calls return, and what follows them: the end of the body (\<open>None\<close>) or an exception
  raised by \<open>read\<close>.
\<close>

datatype response =
    Refused exn
  | Response (content_length: "string option") (body: "string list") (ending: "exn option")

text \<open>
  The library functions that are not part of the repository are parameters:
  \<open>hashlib.md5(...).hexdigest()\<close> of a file's bytes, \<open>urlopen\<close> (the answer to the
  \<open>n\<close>-th request of the run, for a URL), \<open>ET.fromstring\<close> and \<open>bytes.decode("utf-8")\<close>.
\<close>

record platform =
  md5_hexdigest :: "string \<Rightarrow> string"
  urlopen :: "nat \<Rightarrow> string \<Rightarrow> response"
  fromstring :: "string \<Rightarrow> exn + element"
  decode_utf8 :: "string \<Rightarrow> exn + string"

text \<open>
  \<open>parse_from_string\<close>. The result is \<open>Inr\<close> of the index and the lines printed, or
  \<open>Inl\<close> of an exception that leaves the function. The \<open>try\<close> catches every
  \<open>Exception\<close>, so there is no \<open>Inl\<close> branch.
\<close>

definition parse_from_string :: "platform \<Rightarrow> string \<Rightarrow> exn + (FirmwareIndex \<times> report list)" where
  "parse_from_string pf xml_content =
     (case fromstring pf xml_content of
        Inr root \<Rightarrow> Inr (parse_root root, [])
      | Inl e \<Rightarrow> Inr (FirmwareIndex_default, [ParseFailed e]))"

section \<open>Paths and the file system\<close>

text \<open>\<open>os.path.join\<close> and \<open>os.path.dirname\<close> of \<open>posixpath\<close>.\<close>

fun os_path_join :: "string \<Rightarrow> string list \<Rightarrow> string" where
  "os_path_join path [] = path"
| "os_path_join path (b # bs) =
     os_path_join
       (if take 1 b = ''/'' then b
        else if path = [] \<or> last path = CHR ''/'' then path @ b
        else path @ ''/'' @ b) bs"

definition rstrip_sep :: "string \<Rightarrow> string" where
  "rstrip_sep s = rev (dropWhile (\<lambda>c. c = CHR ''/'') (rev s))"

definition os_path_dirname :: "string \<Rightarrow> string" where
  "os_path_dirname p =
     (let head = rev (dropWhile (\<lambda>c. c \<noteq> CHR ''/'') (rev p))
      in if head \<noteq> [] \<and> \<not> list_all (\<lambda>c. c = CHR ''/'') head then rstrip_sep head else head)"

text \<open>
  The file system, as one process on a POSIX system sees it. A path names a node by
  whether it is absolute and by its components; empty components and \<open>.\<close> name nothing
  (\<open>a//b\<close>, \<open>a/./b\<close> and \<open>a/b/\<close> are \<open>a/b\<close>), and \<open>..\<close> is not interpreted. A path that
  ends in a separator or in \<open>.\<close> names a directory only. The root and the working directory
  always exist. Permissions, symbolic links and a full disk are not modelled: reading and
  removing a file and writing to an open file succeed.
\<close>

fun split_sep :: "string \<Rightarrow> string list" where
  "split_sep [] = [[]]"
| "split_sep (c # cs) =
     (if c = CHR ''/'' then [] # split_sep cs
      else (case split_sep cs of x # xs \<Rightarrow> (c # x) # xs | [] \<Rightarrow> [[c]]))"

type_synonym fkey = "bool \<times> string list"

definition resolve :: "string \<Rightarrow> fkey" where
  "resolve p = (take 1 p = ''/'', filter (\<lambda>c. c \<noteq> [] \<and> c \<noteq> ''.'') (split_sep p))"

definition wants_dir :: "string \<Rightarrow> bool" where
  "wants_dir p = (last (split_sep p) = [] \<or> last (split_sep p) = ''.'')"

datatype node = File string | Directory

text \<open>
  What the program does that can be observed from outside: a line printed, a request
  sent (\<open>urlopen\<close> called with a URL), a file removed (\<open>os.remove\<close> succeeded).
\<close>

datatype event = Print report | Get string | Remove string

record world =
  files :: "fkey \<Rightarrow> node option"
  trace :: "event list"

definition say :: "report \<Rightarrow> world \<Rightarrow> world" where
  "say r w = w\<lparr>trace := trace w @ [Print r]\<rparr>"

fun get_urls :: "event list \<Rightarrow> string list" where
  "get_urls [] = []"
| "get_urls (Get u # es) = u # get_urls es"
| "get_urls (e # es) = get_urls es"

fun effects :: "event list \<Rightarrow> event list" where
  "effects [] = []"
| "effects (Print r # es) = effects es"
| "effects (e # es) = e # effects es"

definition node_at :: "world \<Rightarrow> string \<Rightarrow> node option" where
  "node_at w p =
     (if snd (resolve p) = [] then Some Directory
      else (case files w (resolve p) of
              Some (File bs) \<Rightarrow> if wants_dir p then None else Some (File bs)
            | r \<Rightarrow> r))"

definition os_path_exists :: "world \<Rightarrow> string \<Rightarrow> bool" where
  "os_path_exists w p = (node_at w p \<noteq> None)"

text \<open>\<open>open(p, "rb")\<close> and reading the file to its end.\<close>

definition read_file :: "world \<Rightarrow> string \<Rightarrow> exn + string" where
  "read_file w p =
     (case node_at w p of
        Some (File bs) \<Rightarrow> Inr bs
      | Some Directory \<Rightarrow> Inl IsADirectoryError
      | None \<Rightarrow> Inl FileNotFoundError)"

definition os_remove :: "world \<Rightarrow> string \<Rightarrow> exn + world" where
  "os_remove w p =
     (case node_at w p of
        Some (File bs) \<Rightarrow> Inr (w\<lparr>files := (files w)(resolve p := None), trace := trace w @ [Remove p]\<rparr>)
      | Some Directory \<Rightarrow> Inl IsADirectoryError
      | None \<Rightarrow> Inl FileNotFoundError)"

definition parent_is_dir :: "world \<Rightarrow> fkey \<Rightarrow> bool" where
  "parent_is_dir w k =
     (butlast (snd k) = [] \<or> files w (fst k, butlast (snd k)) = Some Directory)"

text \<open>\<open>open(p, "wb")\<close>: the file is created, or truncated, in an existing directory.\<close>

definition open_wb :: "world \<Rightarrow> string \<Rightarrow> exn + world" where
  "open_wb w p =
     (if wants_dir p \<or> node_at w p = Some Directory then Inl IsADirectoryError
      else if \<not> parent_is_dir w (resolve p) then Inl FileNotFoundError
      else Inr (w\<lparr>files := (files w)(resolve p \<mapsto> File [])\<rparr>))"

text \<open>\<open>f.write(chunk)\<close> on the file opened at \<open>p\<close>.\<close>

definition write_chunk :: "string \<Rightarrow> string \<Rightarrow> world \<Rightarrow> world" where
  "write_chunk p chunk w =
     (case files w (resolve p) of
        Some (File bs) \<Rightarrow> w\<lparr>files := (files w)(resolve p \<mapsto> File (bs @ chunk))\<rparr>
      | _ \<Rightarrow> w)"

text \<open>
  \<open>Path(p).mkdir(parents=True, exist_ok=True)\<close>: every missing directory on the way to
  \<open>p\<close> is created; a file at \<open>p\<close> or on the way makes it raise, and nothing is created.
\<close>

definition dir_keys :: "string \<Rightarrow> fkey list" where
  "dir_keys p = map (\<lambda>i. (fst (resolve p), take i (snd (resolve p)))) [1..<Suc (length (snd (resolve p)))]"

definition is_file :: "node option \<Rightarrow> bool" where
  "is_file n = (case n of Some (File bs) \<Rightarrow> True | _ \<Rightarrow> False)"

definition mkdir_parents :: "world \<Rightarrow> string \<Rightarrow> exn + world" where
  "mkdir_parents w p =
     (if list_ex (\<lambda>k. is_file (files w k)) (dir_keys p)
      then Inl (if is_file (files w (resolve p)) then FileExistsError else NotADirectoryError)
      else Inr (w\<lparr>files := (\<lambda>k. if List.member (dir_keys p) k \<and> files w k = None
                                then Some Directory else files w k)\<rparr>))"

section \<open>firmware\_downloader.py\<close>

text \<open>
  A call that an exception can leave returns \<open>Inl\<close> of the exception and the world at
  that moment, or \<open>Inr\<close> of its result. \<open>base\<close> is \<open>self.base_directory\<close>.
\<close>

definition construct_url :: "Release \<Rightarrow> Image \<Rightarrow> string" where
  "construct_url release img = ''https://'' @ httphost release @ urlpath release @ filename img"

definition construct_output_path :: "string \<Rightarrow> Release \<Rightarrow> Image \<Rightarrow> string" where
  "construct_output_path base release img =
     os_path_join base [channel release, date release, release_revision release, filename img]"

definition create_directory :: "string \<Rightarrow> world \<Rightarrow> bool \<times> world" where
  "create_directory path w =
     (case mkdir_parents w path of
        Inr w' \<Rightarrow> (True, w')
      | Inl e \<Rightarrow> (False, say (DirError path e) w))"

definition calculate_md5 :: "platform \<Rightarrow> string \<Rightarrow> world \<Rightarrow> string \<times> world" where
  "calculate_md5 pf file_path w =
     (case read_file w file_path of
        Inr bs \<Rightarrow> (md5_hexdigest pf bs, w)
      | Inl e \<Rightarrow> ([], say (Md5Error file_path e) w))"

definition validate_md5 :: "platform \<Rightarrow> string \<Rightarrow> string \<Rightarrow> world \<Rightarrow> bool \<times> world" where
  "validate_md5 pf file_path expected_md5 w =
     (let (calculated, w1) = calculate_md5 pf file_path w;
          is_valid = (lower calculated = lower expected_md5)
      in (is_valid,
          if is_valid then w1
          else say (CalculatedMd5 calculated) (say (ExpectedMd5 expected_md5) w1)))"

text \<open>The two \<open>except\<close> branches of \<open>download_file\<close>: they differ in the line printed.\<close>

definition download_failed :: "exn \<Rightarrow> string \<Rightarrow> world \<Rightarrow> (exn \<times> world) + (bool \<times> world)" where
  "download_failed e output_path w =
     (let w1 = say (if is_URLError e then UrlErrorMsg e else DownloadErrorMsg e) w
      in if os_path_exists w1 output_path
         then (case os_remove w1 output_path of
                 Inl e' \<Rightarrow> Inl (e', w1)
               | Inr w2 \<Rightarrow> Inr (False, w2))
         else Inr (False, w1))"

text \<open>The \<open>while True\<close> loop of \<open>download_file\<close> over the chunks the response delivers.\<close>

fun read_loop :: "string \<Rightarrow> int \<Rightarrow> nat \<Rightarrow> string list \<Rightarrow> exn option \<Rightarrow> world \<Rightarrow> (exn \<times> world) + world" where
  "read_loop output_path total_size downloaded [] fin w =
     (case fin of None \<Rightarrow> Inr w | Some e \<Rightarrow> Inl (e, w))"
| "read_loop output_path total_size downloaded (chunk # chunks) fin w =
     (if chunk = [] then Inr w
      else let w1 = write_chunk output_path chunk w;
               downloaded' = downloaded + length chunk;
               w2 = (if total_size > 0 then say (Progress downloaded' total_size) w1 else w1)
           in read_loop output_path total_size downloaded' chunks fin w2)"

definition download_file :: "platform \<Rightarrow> string \<Rightarrow> string \<Rightarrow> world \<Rightarrow> (exn \<times> world) + (bool \<times> world)" where
  "download_file pf url output_path w =
     (let w1 = w\<lparr>trace := trace w @ [Get url]\<rparr>
      in case urlopen pf (length (get_urls (trace w))) url of
           Refused e \<Rightarrow> download_failed e output_path w1
         | Response cl chunks fin \<Rightarrow>
             (case (case cl of None \<Rightarrow> Some 0 | Some s \<Rightarrow> py_int s) of
                None \<Rightarrow> download_failed ValueError output_path w1
              | Some total_size \<Rightarrow>
                  (case open_wb w1 output_path of
                     Inl e \<Rightarrow> download_failed e output_path w1
                   | Inr w2 \<Rightarrow>
                       (case read_loop output_path total_size 0 chunks fin w2 of
                          Inl (e, w3) \<Rightarrow> download_failed e output_path w3
                        | Inr w3 \<Rightarrow> Inr (True, say ProgressEnd w3)))))"

text \<open>Lines 78 to 87 of \<open>download_release\<close>: the download and the check after it.\<close>

definition fetch_image :: "platform \<Rightarrow> string \<Rightarrow> string \<Rightarrow> Image \<Rightarrow> world \<Rightarrow> (exn \<times> world) + world" where
  "fetch_image pf url output_path img w =
     (case download_file pf url output_path (say (Downloading (filename img)) w) of
        Inl x \<Rightarrow> Inl x
      | Inr (ok, w1) \<Rightarrow>
          if ok then
            (let (valid, w2) = validate_md5 pf output_path (md5 img) (say DownloadedOk w1)
             in Inr (say (if valid then Md5Passed else Md5Failed) w2))
          else Inr (say DownloadFailed w1))"

text \<open>The body of the loop of \<open>download_release\<close>, for one image.\<close>

definition download_image :: "platform \<Rightarrow> string \<Rightarrow> Release \<Rightarrow> Image \<Rightarrow> world \<Rightarrow> (exn \<times> world) + world" where
  "download_image pf base release img w =
     (let url = construct_url release img;
          output_path = construct_output_path base release img;
          w1 = snd (create_directory (os_path_dirname output_path) w)
      in if os_path_exists w1 output_path then
           (let (valid, w2) = validate_md5 pf output_path (md5 img) (say (Checking (filename img)) w1)
            in if valid then Inr (say AlreadyDownloaded w2)
               else (case os_remove (say ReDownloading w2) output_path of
                       Inl e \<Rightarrow> Inl (e, say ReDownloading w2)
                     | Inr w3 \<Rightarrow> fetch_image pf url output_path img w3))
         else fetch_image pf url output_path img w1)"

fun download_images :: "platform \<Rightarrow> string \<Rightarrow> Release \<Rightarrow> Image list \<Rightarrow> world \<Rightarrow> (exn \<times> world) + world" where
  "download_images pf base release [] w = Inr w"
| "download_images pf base release (img # rest) w =
     (case download_image pf base release img w of
        Inl x \<Rightarrow> Inl x
      | Inr w' \<Rightarrow> download_images pf base release rest w')"

definition download_release :: "platform \<Rightarrow> string \<Rightarrow> Release \<Rightarrow> string \<Rightarrow> world \<Rightarrow> (exn \<times> world) + world" where
  "download_release pf base release device_name w = download_images pf base release (images release) w"

text \<open>The three nested loops of \<open>download_all\<close>.\<close>

fun download_releases :: "platform \<Rightarrow> string \<Rightarrow> string \<Rightarrow> Release list \<Rightarrow> world \<Rightarrow> (exn \<times> world) + world" where
  "download_releases pf base device_name [] w = Inr w"
| "download_releases pf base device_name (release # rest) w =
     (case download_release pf base release device_name
             (say (ReleaseLine (channel release) (date release) (release_revision release)) w) of
        Inl x \<Rightarrow> Inl x
      | Inr w' \<Rightarrow> download_releases pf base device_name rest w')"

fun download_hardware :: "platform \<Rightarrow> string \<Rightarrow> string \<Rightarrow> Hardware list \<Rightarrow> world \<Rightarrow> (exn \<times> world) + world" where
  "download_hardware pf base device_name [] w = Inr w"
| "download_hardware pf base device_name (hw # rest) w =
     (case download_releases pf base device_name (releases hw)
             (say (HardwareLine (hardware_revision hw)) w) of
        Inl x \<Rightarrow> Inl x
      | Inr w' \<Rightarrow> download_hardware pf base device_name rest w')"

fun download_devices :: "platform \<Rightarrow> string \<Rightarrow> Device list \<Rightarrow> world \<Rightarrow> (exn \<times> world) + world" where
  "download_devices pf base [] w = Inr w"
| "download_devices pf base (device # rest) w =
     (case download_hardware pf base (productname device) (hardware device)
             (say (DeviceLine (productname device) (device_id device)) w) of
        Inl x \<Rightarrow> Inl x
      | Inr w' \<Rightarrow> download_devices pf base rest w')"

definition download_all :: "platform \<Rightarrow> string \<Rightarrow> FirmwareIndex \<Rightarrow> world \<Rightarrow> (exn \<times> world) + world" where
  "download_all pf base index w =
     (case download_devices pf base (devices index)
             (say (IndexRevisionLine (index_revision index)) (say StartingDownload w)) of
        Inl x \<Rightarrow> Inl x
      | Inr w' \<Rightarrow> Inr (say DownloadCompleted w'))"

definition download_index_xml :: "platform \<Rightarrow> string \<Rightarrow> world \<Rightarrow> string \<times> world" where
  "download_index_xml pf url w =
     (let w1 = w\<lparr>trace := trace w @ [Get url]\<rparr>;
          failed = (\<lambda>e. ([], say (if is_URLError e then UrlErrorMsg e else DownloadErrorMsg e) w1))
      in case urlopen pf (length (get_urls (trace w))) url of
           Refused e \<Rightarrow> failed e
         | Response cl chunks fin \<Rightarrow>
             (case fin of
                Some e \<Rightarrow> failed e
              | None \<Rightarrow>
                  (case decode_utf8 pf (concat chunks) of
                     Inl e \<Rightarrow> failed e
                   | Inr text \<Rightarrow> (text, w1))))"

section \<open>main.py\<close>

text \<open>
  \<open>main\<close> with \<open>sys.argv\<close> as its argument. \<open>Inr\<close> carries the value \<open>main\<close> returns, which
  is the exit status of the process; \<open>Inl\<close> is an exception that nothing catches.
\<close>

definition index_url_of :: "string list \<Rightarrow> string" where
  "index_url_of argv =
     (if length argv > 1 then argv ! 1
      else ''https://releases.firmware.ozloapp.co/dd/sleepbuds3/index.xml'')"

definition output_dir_of :: "string list \<Rightarrow> string" where
  "output_dir_of argv = (if length argv > 2 then argv ! 2 else ''./firmware_downloads'')"

text \<open>The first lines printed and \<open>FirmwareDownloader(output_dir)\<close>, which creates the
  base directory.\<close>

definition startup :: "string \<Rightarrow> string \<Rightarrow> world \<Rightarrow> world" where
  "startup index_url output_dir w =
     snd (create_directory output_dir
            (say DownloadingIndex (say (OutputDirLine output_dir)
               (say (IndexUrlLine index_url) (say Banner w)))))"

definition main :: "platform \<Rightarrow> string list \<Rightarrow> world \<Rightarrow> (exn \<times> world) + (int \<times> world)" where
  "main pf argv w =
     (let index_url = index_url_of argv;
          output_dir = output_dir_of argv;
          (xml_content, w3) = download_index_xml pf index_url (startup index_url output_dir w)
      in if xml_content = [] then Inr (1, say FailedIndex w3)
         else (case parse_from_string pf xml_content of
                 Inl e \<Rightarrow> Inl (e, say ParsingIndex w3)
               | Inr (index, printed) \<Rightarrow>
                   (let w4 = w3\<lparr>trace := trace w3 @ Print ParsingIndex # map Print printed\<rparr>
                    in if devices index = [] then Inr (1, say NoDevices w4)
                       else (case download_all pf output_dir index
                                    (say (FoundDevices (length (devices index))) w4) of
                               Inl x \<Rightarrow> Inl x
                             | Inr w5 \<Rightarrow> Inr (0, w5)))))"

section \<open>Documents and indexes side by side\<close>

text \<open>
  The elements of a document that the schema recognises, in document order: those reached
  from the root through children with the given tags, one tag for each level.
\<close>

fun elems_at :: "string list \<Rightarrow> element \<Rightarrow> element list" where
  "elems_at [] e = [e]"
| "elems_at (t # ts) e = concat (map (elems_at ts) (filter (\<lambda>c. tag c = t) (children e)))"

text \<open>The document with every child removed that the schema does not recognise at its level.\<close>

fun prune :: "string list \<Rightarrow> element \<Rightarrow> element" where
  "prune [] e = Element (tag e) (attrib e) []"
| "prune (t # ts) e =
     Element (tag e) (attrib e) (map (prune ts) (filter (\<lambda>c. tag c = t) (children e)))"

text \<open>The hardware revisions, releases and images of an index, in traversal order.\<close>

definition all_hardware :: "FirmwareIndex \<Rightarrow> Hardware list" where
  "all_hardware index = concat (map hardware (devices index))"

definition all_releases :: "FirmwareIndex \<Rightarrow> Release list" where
  "all_releases index = concat (map releases (all_hardware index))"

definition all_images :: "FirmwareIndex \<Rightarrow> Image list" where
  "all_images index = concat (map images (all_releases index))"

text \<open>
  The digest \<open>calculate_md5\<close> returns for a path, from the node at the path: the empty
  string unless the node is a file.
\<close>

definition digest_at :: "platform \<Rightarrow> node option \<Rightarrow> string" where
  "digest_at pf n = (case n of Some (File bs) \<Rightarrow> md5_hexdigest pf bs | _ \<Rightarrow> [])"

text \<open>
  A transfer that fails in the transport: \<open>urlopen\<close> raises, or \<open>read\<close> raises before the
  body has ended.
\<close>

fun transfer_fails :: "response \<Rightarrow> bool" where
  "transfer_fails (Refused e) = True"
| "transfer_fails (Response cl chunks fin) = (fin \<noteq> None \<and> [] \<notin> set chunks)"



section \<open>Examples\<close>

text \<open>The release and the image of the path example, and an image element.\<close>

definition stable_release :: Release where
  "stable_release =
     \<lparr>channel = ''stable'', date = ''2024-01-01'', httphost = ''fw.example.com'',
      urlpath = ''/sleepbuds/'', release_revision = ''v2'', images = []\<rparr>"

definition fw_image :: Image where
  "fw_image =
     \<lparr>filename = ''fw.bin'', md5 = ''900150983cd24fb0d6963f7d28e17f72'', nxh_version = [],
      l_bud_version = [], r_bud_version = [], image_revision = [], build_id = [],
      image_length = 3, target = 0, subid = 0\<rparr>"


text \<open>
  A catalog with one release of two images and two elements that the schema does not
  know, as text and as the tree \<open>ET.fromstring\<close> builds from it.
\<close>

definition catalog_xml :: string where
  "catalog_xml = ''<INDEX REVISION='7'><NOTE/><DEVICE ID='d1' PRODUCTNAME='Sleepbuds'><HARDWARE REVISION='A'><RELEASE CHANNEL='stable' DATE='2024-01-01' HTTPHOST='fw.example.com' URLPATH='/sleepbuds/' REVISION='v2'><IMAGE FILENAME='fw.bin' MD5='900150983CD24FB0D6963F7D28E17F72' LENGTH='3'/><SIGNATURE/><IMAGE FILENAME='bad.bin' MD5='0cc175b9c0f1b6a831c399e269772661'/></RELEASE></HARDWARE></DEVICE></INDEX>''"

definition release_attrib :: "(string \<times> string) list" where
  "release_attrib =
     [(''CHANNEL'', ''stable''), (''DATE'', ''2024-01-01''), (''HTTPHOST'', ''fw.example.com''),
      (''URLPATH'', ''/sleepbuds/''), (''REVISION'', ''v2'')]"

definition catalog_root :: element where
  "catalog_root =
     Element ''INDEX'' [(''REVISION'', ''7'')]
       [Element ''NOTE'' [] [],
        Element ''DEVICE'' [(''ID'', ''d1''), (''PRODUCTNAME'', ''Sleepbuds'')]
          [Element ''HARDWARE'' [(''REVISION'', ''A'')]
             [Element ''RELEASE'' release_attrib
                [Element ''IMAGE''
                   [(''FILENAME'', ''fw.bin''), (''MD5'', ''900150983CD24FB0D6963F7D28E17F72''),
                    (''LENGTH'', ''3'')] [],
                 Element ''SIGNATURE'' [] [],
                 Element ''IMAGE''
                   [(''FILENAME'', ''bad.bin''), (''MD5'', ''0cc175b9c0f1b6a831c399e269772661'')] []]]]]"

text \<open>A catalog whose first image has no \<open>FILENAME\<close>.\<close>

definition nofile_xml :: string where
  "nofile_xml = ''<INDEX><DEVICE><HARDWARE><RELEASE CHANNEL='stable' DATE='2024-01-01' HTTPHOST='fw.example.com' URLPATH='/sleepbuds/' REVISION='v2'><IMAGE MD5='00'/><IMAGE FILENAME='fw.bin'/></RELEASE></HARDWARE></DEVICE></INDEX>''"

definition nofile_root :: element where
  "nofile_root =
     Element ''INDEX'' []
       [Element ''DEVICE'' []
          [Element ''HARDWARE'' []
             [Element ''RELEASE'' release_attrib
                [Element ''IMAGE'' [(''MD5'', ''00'')] [],
                 Element ''IMAGE'' [(''FILENAME'', ''fw.bin'')] []]]]]"

text \<open>
  A platform for the examples. Its digest function gives the MD5 digests of \<open>abc\<close>, of
  \<open>a\<close> and of the empty file (and the last one for any other content, which the examples
  do not use). Its parser knows the two catalogs and an index without children, and takes
  every other text, such as one that is cut off, as not well formed. Its server has the
  two catalogs, a text that is cut off, an image \<open>fw.bin\<close> with the content \<open>abc\<close>, and
  an image \<open>cut.bin\<close> whose transfer breaks after one byte; it answers every other URL
  with the status 404. Text is ASCII, so decoding changes nothing.
\<close>

definition sample_md5 :: "string \<Rightarrow> string" where
  "sample_md5 bs =
     (if bs = ''abc'' then ''900150983cd24fb0d6963f7d28e17f72''
      else if bs = ''a'' then ''0cc175b9c0f1b6a831c399e269772661''
      else ''d41d8cd98f00b204e9800998ecf8427e'')"

definition sample_fromstring :: "string \<Rightarrow> exn + element" where
  "sample_fromstring s =
     (if s = catalog_xml then Inr catalog_root
      else if s = nofile_xml then Inr nofile_root
      else if s = ''<INDEX/>'' then Inr (Element ''INDEX'' [] [])
      else Inl ParseError)"

definition sample_urlopen :: "nat \<Rightarrow> string \<Rightarrow> response" where
  "sample_urlopen n url =
     (if url = ''https://fw.example.com/catalog.xml'' then Response None [catalog_xml] None
      else if url = ''https://fw.example.com/nofile.xml'' then Response None [nofile_xml] None
      else if url = ''https://fw.example.com/cut.xml'' then Response None [''<INDEX''] None
      else if url = ''https://fw.example.com/sleepbuds/fw.bin'' then Response (Some ''3'') [''abc''] None
      else if url = ''https://fw.example.com/sleepbuds/cut.bin'' then Response None [''a''] (Some TimeoutError)
      else Refused (HTTPError 404))"

definition sample_platform :: platform where
  "sample_platform =
     \<lparr>md5_hexdigest = sample_md5, urlopen = sample_urlopen,
      fromstring = sample_fromstring, decode_utf8 = Inr\<rparr>"

definition empty_world :: world where
  "empty_world = \<lparr>files = (\<lambda>k. None), trace = []\<rparr>"



text \<open>
  A file system in which \<open>out/stable/2024-01-01/v2/fw.bin\<close> is a file with the given
  content, below its four directories, and nothing has happened yet.
\<close>

definition stored_world :: "string \<Rightarrow> world" where
  "stored_world content =
     \<lparr>files = (\<lambda>k. if k = (False, [''out'', ''stable'', ''2024-01-01'', ''v2'', ''fw.bin''])
                     then Some (File content)
                     else if List.member (dir_keys ''out/stable/2024-01-01/v2'') k
                     then Some Directory else None),
      trace = []\<rparr>"

section \<open>Properties of the parser\<close>

lemma tag_prune: "tag (prune ts e) = tag e"
  by (cases ts) simp_all

lemma attrib_prune: "attrib (prune ts e) = attrib e"
  by (cases ts) simp_all

lemma get_prune: "get (prune ts e) key dflt = get e key dflt"
  by (simp add: get_def attrib_prune)

lemma children_prune:
  "children (prune (t # ts) e) = map (prune ts) (filter (\<lambda>c. tag c = t) (children e))"
  by simp

lemma filter_tag_prune:
  "filter (\<lambda>e. tag e = t) (map (prune ts) es) = map (prune ts) (filter (\<lambda>e. tag e = t) es)"
  by (induction es) (simp_all add: tag_prune del: prune.simps)

lemma parse_image_prune: "parse_image (prune ts e) = parse_image e"
  by (simp add: parse_image_def int_attr_def get_prune del: prune.simps)

lemma parse_release_prune: "parse_release (prune [''IMAGE''] e) = parse_release e"
  by (simp add: parse_release_def get_prune children_prune filter_tag_prune parse_image_prune
        del: prune.simps)

lemma parse_hardware_prune: "parse_hardware (prune [''RELEASE'', ''IMAGE''] e) = parse_hardware e"
  by (simp add: parse_hardware_def get_prune children_prune filter_tag_prune parse_release_prune
        del: prune.simps)

lemma parse_device_prune:
  "parse_device (prune [''HARDWARE'', ''RELEASE'', ''IMAGE''] e) = parse_device e"
  by (simp add: parse_device_def get_prune children_prune filter_tag_prune parse_hardware_prune
        del: prune.simps)

lemma parse_root_prune:
  "parse_root (prune [''DEVICE'', ''HARDWARE'', ''RELEASE'', ''IMAGE''] e) = parse_root e"
  by (simp add: parse_root_def get_prune children_prune filter_tag_prune parse_device_prune
        del: prune.simps)

lemma elems_at_Nil: "concat (map (elems_at []) xs) = xs"
  by (induction xs) simp_all

lemma concat_map_concat:
  "concat (map f (concat xss)) = concat (map (\<lambda>xs. concat (map f xs)) xss)"
  by (induction xss) simp_all

lemma elems_at_level:
  assumes "\<And>x. g (P x) = map f (elems_at ts x)"
  shows "concat (map g (map P (filter (\<lambda>c. tag c = t) (children e)))) = map f (elems_at (t # ts) e)"
proof -
  have "concat (map g (map P xs)) = map f (concat (map (elems_at ts) xs))" for xs
    by (induction xs) (simp_all add: assms)
  then show ?thesis by simp
qed

lemma images_parse_release: "images (parse_release r) = map parse_image (elems_at [''IMAGE''] r)"
  by (simp add: parse_release_def elems_at_Nil)

lemma images_parse_hardware:
  "concat (map images (releases (parse_hardware h))) = map parse_image (elems_at [''RELEASE'', ''IMAGE''] h)"
  unfolding parse_hardware_def Hardware.simps
  by (rule elems_at_level) (rule images_parse_release)

lemma releases_parse_device:
  "concat (map releases (hardware (parse_device d))) = map parse_release (elems_at [''HARDWARE'', ''RELEASE''] d)"
  unfolding parse_device_def Device.simps
  by (rule elems_at_level) (simp add: parse_hardware_def elems_at_Nil)

lemma images_parse_device:
  "concat (map images (concat (map releases (hardware (parse_device d))))) =
     map parse_image (elems_at [''HARDWARE'', ''RELEASE'', ''IMAGE''] d)"
proof -
  have "concat (map (\<lambda>h. concat (map images (releases h))) (hardware (parse_device d))) =
      map parse_image (elems_at [''HARDWARE'', ''RELEASE'', ''IMAGE''] d)"
    unfolding parse_device_def Device.simps
    by (rule elems_at_level) (rule images_parse_hardware)
  then show ?thesis
    by (simp add: concat_map_concat comp_def del: elems_at.simps)
qed

lemma devices_parse_root: "devices (parse_root root) = map parse_device (elems_at [''DEVICE''] root)"
  by (simp add: parse_root_def elems_at_Nil)

lemma hardware_parse_root:
  "all_hardware (parse_root root) = map parse_hardware (elems_at [''DEVICE'', ''HARDWARE''] root)"
  unfolding all_hardware_def parse_root_def FirmwareIndex.simps
  by (rule elems_at_level) (simp add: parse_device_def elems_at_Nil)

lemma releases_parse_root:
  "all_releases (parse_root root) =
     map parse_release (elems_at [''DEVICE'', ''HARDWARE'', ''RELEASE''] root)"
proof -
  have "concat (map (\<lambda>d. concat (map releases (hardware d))) (devices (parse_root root))) =
      map parse_release (elems_at [''DEVICE'', ''HARDWARE'', ''RELEASE''] root)"
    unfolding parse_root_def FirmwareIndex.simps
    by (rule elems_at_level) (rule releases_parse_device)
  then show ?thesis
    by (simp add: all_releases_def all_hardware_def concat_map_concat comp_def del: elems_at.simps)
qed

lemma images_parse_root:
  "all_images (parse_root root) =
     map parse_image (elems_at [''DEVICE'', ''HARDWARE'', ''RELEASE'', ''IMAGE''] root)"
proof -
  have "concat (map (\<lambda>d. concat (map images (concat (map releases (hardware d))))) (devices (parse_root root))) =
      map parse_image (elems_at [''DEVICE'', ''HARDWARE'', ''RELEASE'', ''IMAGE''] root)"
    unfolding parse_root_def FirmwareIndex.simps
    by (rule elems_at_level) (rule images_parse_device)
  then show ?thesis
    by (simp add: all_images_def all_releases_def all_hardware_def concat_map_concat comp_def del: elems_at.simps)
qed


text \<open>
  Claim C6. When the document is well formed, \<open>parse_from_string\<close> returns, with nothing
  printed, an index whose devices, hardware revisions, releases and images are the parsed
  \<open>DEVICE\<close>, \<open>HARDWARE\<close>, \<open>RELEASE\<close> and \<open>IMAGE\<close> elements of the document, each found
  below its parent element, in document order; so the four counts agree. Children with any
  other tag change nothing: the index is the one of the document without them.
\<close>

theorem parse_counts_and_order:
  assumes "fromstring pf xml = Inr root"
  shows "parse_from_string pf xml = Inr (parse_root root, [])
     \<and> devices (parse_root root) = map parse_device (elems_at [''DEVICE''] root)
     \<and> all_hardware (parse_root root) = map parse_hardware (elems_at [''DEVICE'', ''HARDWARE''] root)
     \<and> all_releases (parse_root root) =
         map parse_release (elems_at [''DEVICE'', ''HARDWARE'', ''RELEASE''] root)
     \<and> all_images (parse_root root) =
         map parse_image (elems_at [''DEVICE'', ''HARDWARE'', ''RELEASE'', ''IMAGE''] root)
     \<and> length (devices (parse_root root)) = length (elems_at [''DEVICE''] root)
     \<and> length (all_hardware (parse_root root)) = length (elems_at [''DEVICE'', ''HARDWARE''] root)
     \<and> length (all_releases (parse_root root)) =
         length (elems_at [''DEVICE'', ''HARDWARE'', ''RELEASE''] root)
     \<and> length (all_images (parse_root root)) =
         length (elems_at [''DEVICE'', ''HARDWARE'', ''RELEASE'', ''IMAGE''] root)
     \<and> parse_root (prune [''DEVICE'', ''HARDWARE'', ''RELEASE'', ''IMAGE''] root) = parse_root root"
proof -
  have "parse_from_string pf xml = Inr (parse_root root, [])"
    using assms by (simp add: parse_from_string_def)
  moreover have "length (devices (parse_root root)) = length (elems_at [''DEVICE''] root)"
    by (simp only: devices_parse_root length_map)
  moreover have "length (all_hardware (parse_root root)) = length (elems_at [''DEVICE'', ''HARDWARE''] root)"
    by (simp only: hardware_parse_root length_map)
  moreover have "length (all_releases (parse_root root)) =
      length (elems_at [''DEVICE'', ''HARDWARE'', ''RELEASE''] root)"
    by (simp only: releases_parse_root length_map)
  moreover have "length (all_images (parse_root root)) =
      length (elems_at [''DEVICE'', ''HARDWARE'', ''RELEASE'', ''IMAGE''] root)"
    by (simp only: images_parse_root length_map)
  ultimately show ?thesis
    by (simp add: devices_parse_root hardware_parse_root releases_parse_root images_parse_root
      parse_root_prune del: elems_at.simps prune.simps)
qed

theorem parse_counts_and_order_witness:
  "fromstring sample_platform catalog_xml = Inr catalog_root
   \<and> parse_from_string sample_platform catalog_xml = Inr (parse_root catalog_root, [])
   \<and> length (devices (parse_root catalog_root)) = 1
   \<and> length (all_hardware (parse_root catalog_root)) = 1
   \<and> length (all_releases (parse_root catalog_root)) = 1
   \<and> length (all_images (parse_root catalog_root)) = 2
   \<and> map filename (all_images (parse_root catalog_root)) = [''fw.bin'', ''bad.bin'']"
proof -
  have h: "fromstring sample_platform catalog_xml = Inr catalog_root"
    by (simp add: sample_platform_def sample_fromstring_def)
  note t = parse_counts_and_order [OF h]
  have d: "elems_at [''DEVICE''] catalog_root = [children catalog_root ! 1]"
    by (simp add: catalog_root_def)
  have i: "map parse_image (elems_at [''DEVICE'', ''HARDWARE'', ''RELEASE'', ''IMAGE''] catalog_root)
      = [parse_image (Element ''IMAGE''
           [(''FILENAME'', ''fw.bin''), (''MD5'', ''900150983CD24FB0D6963F7D28E17F72''),
            (''LENGTH'', ''3'')] []),
         parse_image (Element ''IMAGE''
           [(''FILENAME'', ''bad.bin''), (''MD5'', ''0cc175b9c0f1b6a831c399e269772661'')] [])]"
    by (simp add: catalog_root_def)
  have "length (elems_at [''DEVICE'', ''HARDWARE''] catalog_root) = 1"
    "length (elems_at [''DEVICE'', ''HARDWARE'', ''RELEASE''] catalog_root) = 1"
    by (simp_all add: catalog_root_def)
  then show ?thesis
    using h t d i by (simp add: parse_image_def get_def del: elems_at.simps prune.simps)
qed



section \<open>Properties of the URL and the path\<close>

lemma os_path_join_absolute:
  "take 1 b = ''/'' \<Longrightarrow> os_path_join a (xs @ b # ys) = os_path_join b ys"
  by (induction xs arbitrary: a) simp_all

lemma os_path_join_stays_absolute:
  "take 1 a = ''/'' \<Longrightarrow> take 1 (os_path_join a bs) = ''/''"
proof (induction bs arbitrary: a)
  case Nil
  then show ?case by simp
next
  case (Cons b bs)
  have "take 1 (a @ b) = ''/''" "take 1 (a @ ''/'' @ b) = ''/''"
    using Cons.prems by (cases a; simp)+
  then show ?case
    using Cons by simp
qed

lemma absolute_not_under_relative:
  assumes "take 1 p = ''/''" "base \<noteq> []" "take 1 base \<noteq> ''/''"
  shows "\<not> prefix base p"
proof
  assume "prefix base p"
  then obtain zs where "p = base @ zs" by (auto simp: prefix_def)
  then show False using assms by (cases base) simp_all
qed






text \<open>
  Claim C9. When the file name, the revision, the date or the channel starts with the
  separator, \<open>os.path.join\<close> drops the base directory and everything else before that
  component; the destination is then an absolute path, which is not below a base directory
  given as a relative path.
\<close>

theorem construct_output_path_escapes:
  "(take 1 (filename i) = ''/'' \<longrightarrow> construct_output_path base r i = filename i)
   \<and> (take 1 (release_revision r) = ''/'' \<longrightarrow>
        construct_output_path base r i = os_path_join (release_revision r) [filename i])
   \<and> (take 1 (date r) = ''/'' \<longrightarrow>
        construct_output_path base r i = os_path_join (date r) [release_revision r, filename i])
   \<and> (take 1 (channel r) = ''/'' \<longrightarrow>
        construct_output_path base r i =
          os_path_join (channel r) [date r, release_revision r, filename i])
   \<and> ((take 1 (channel r) = ''/'' \<or> take 1 (date r) = ''/'' \<or> take 1 (release_revision r) = ''/''
         \<or> take 1 (filename i) = ''/'') \<and> base \<noteq> [] \<and> take 1 base \<noteq> ''/'' \<longrightarrow>
        \<not> prefix base (construct_output_path base r i))"
proof -
  have f: "take 1 (filename i) = ''/'' \<Longrightarrow> construct_output_path base r i = filename i"
    unfolding construct_output_path_def
    using os_path_join_absolute [of "filename i" base "[channel r, date r, release_revision r]" "[]"]
    by simp
  have v: "take 1 (release_revision r) = ''/'' \<Longrightarrow>
        construct_output_path base r i = os_path_join (release_revision r) [filename i]"
    unfolding construct_output_path_def
    using os_path_join_absolute [of "release_revision r" base "[channel r, date r]" "[filename i]"]
    by simp
  have d: "take 1 (date r) = ''/'' \<Longrightarrow>
        construct_output_path base r i = os_path_join (date r) [release_revision r, filename i]"
    unfolding construct_output_path_def
    using os_path_join_absolute [of "date r" base "[channel r]" "[release_revision r, filename i]"]
    by simp
  have c: "take 1 (channel r) = ''/'' \<Longrightarrow>
        construct_output_path base r i =
          os_path_join (channel r) [date r, release_revision r, filename i]"
    unfolding construct_output_path_def
    using os_path_join_absolute [of "channel r" base "[]" "[date r, release_revision r, filename i]"]
    by simp
  have a: "take 1 (construct_output_path base r i) = ''/''"
    if "take 1 (channel r) = ''/'' \<or> take 1 (date r) = ''/'' \<or> take 1 (release_revision r) = ''/''
         \<or> take 1 (filename i) = ''/''"
    using that f v d c os_path_join_stays_absolute by metis
  show ?thesis
    using f v d c a absolute_not_under_relative by blast
qed

theorem construct_output_path_escapes_witness:
  "take 1 (filename (fw_image\<lparr>filename := ''/etc/cron.d/fw''\<rparr>)) = ''/''
   \<and> construct_output_path ''./firmware_downloads'' stable_release (fw_image\<lparr>filename := ''/etc/cron.d/fw''\<rparr>)
       = ''/etc/cron.d/fw''
   \<and> \<not> prefix ''./firmware_downloads''
         (construct_output_path ''./firmware_downloads'' stable_release (fw_image\<lparr>filename := ''/etc/cron.d/fw''\<rparr>))"
  using construct_output_path_escapes
    [of "fw_image\<lparr>filename := ''/etc/cron.d/fw''\<rparr>" "''./firmware_downloads''" stable_release]
  by (simp add: fw_image_def)

section \<open>Properties of the downloader\<close>

subsection \<open>What each operation leaves unchanged\<close>

lemma effects_append [simp]: "effects (xs @ ys) = effects xs @ effects ys"
  by (induction xs rule: effects.induct) simp_all

lemma get_urls_append [simp]: "get_urls (xs @ ys) = get_urls xs @ get_urls ys"
  by (induction xs rule: get_urls.induct) simp_all

lemma say_simps:
  "files (say r w) = files w"
  "trace (say r w) = trace w @ [Print r]"
  "node_at (say r w) p = node_at w p"
  "effects (trace (say r w)) = effects (trace w)"
  "get_urls (trace (say r w)) = get_urls (trace w)"
  by (simp_all add: say_def node_at_def effects_append get_urls_append)

lemma create_directory_node_at:
  assumes "node_at w p \<noteq> None"
  shows "node_at (snd (create_directory d w)) p = node_at w p"
proof (cases "snd (resolve p) = []")
  case True
  then show ?thesis by (simp add: node_at_def)
next
  case False
  with assms have "files w (resolve p) \<noteq> None"
    by (auto simp: node_at_def split: option.splits)
  then have "files (snd (create_directory d w)) (resolve p) = files w (resolve p)"
    by (auto simp: create_directory_def mkdir_parents_def say_simps)
  then show ?thesis
    by (simp add: node_at_def)
qed

lemma create_directory_trace:
  "effects (trace (snd (create_directory d w))) = effects (trace w)"
  "get_urls (trace (snd (create_directory d w))) = get_urls (trace w)"
  by (simp_all add: create_directory_def mkdir_parents_def say_simps effects_append get_urls_append)

lemma calculate_md5_frame:
  "files (snd (calculate_md5 pf p w)) = files w"
  "node_at (snd (calculate_md5 pf p w)) q = node_at w q"
  "effects (trace (snd (calculate_md5 pf p w))) = effects (trace w)"
  "get_urls (trace (snd (calculate_md5 pf p w))) = get_urls (trace w)"
  by (simp_all add: calculate_md5_def say_simps effects_append get_urls_append split: sum.splits)

lemma validate_md5_frame:
  "files (snd (validate_md5 pf p x w)) = files w"
  "node_at (snd (validate_md5 pf p x w)) q = node_at w q"
  "effects (trace (snd (validate_md5 pf p x w))) = effects (trace w)"
  "get_urls (trace (snd (validate_md5 pf p x w))) = get_urls (trace w)"
proof -
  obtain c w1 where c: "calculate_md5 pf p w = (c, w1)"
    by (cases "calculate_md5 pf p w")
  then have "files w1 = files w" "node_at w1 q = node_at w q"
    "effects (trace w1) = effects (trace w)" "get_urls (trace w1) = get_urls (trace w)"
    using calculate_md5_frame(1) [of pf p w] calculate_md5_frame(2) [of pf p w q]
      calculate_md5_frame(3) [of pf p w] calculate_md5_frame(4) [of pf p w] by simp_all
  then show "files (snd (validate_md5 pf p x w)) = files w"
    "node_at (snd (validate_md5 pf p x w)) q = node_at w q"
    "effects (trace (snd (validate_md5 pf p x w))) = effects (trace w)"
    "get_urls (trace (snd (validate_md5 pf p x w))) = get_urls (trace w)"
    by (simp_all add: validate_md5_def c say_simps Let_def)
qed

lemma fst_calculate_md5: "fst (calculate_md5 pf p w) = digest_at pf (node_at w p)"
  by (simp add: calculate_md5_def read_file_def digest_at_def split: option.splits node.splits)

lemma fst_validate_md5:
  "fst (validate_md5 pf p x w) = (lower (digest_at pf (node_at w p)) = lower x)"
  using fst_calculate_md5 [of pf p w]
  by (cases "calculate_md5 pf p w") (simp add: validate_md5_def Let_def)

subsection \<open>Removing and downloading\<close>

lemma os_remove_File:
  assumes "node_at w p = Some (File bs)"
  shows "\<exists>w'. os_remove w p = Inr w' \<and> node_at w' p = None
     \<and> trace w' = trace w @ [Remove p]
     \<and> (\<forall>q. resolve q \<noteq> resolve p \<longrightarrow> node_at w' q = node_at w q)"
  using assms by (auto simp: os_remove_def node_at_def split: option.splits node.splits if_splits)

lemma download_failed_result:
  assumes "node_at w p \<noteq> Some Directory"
  shows "\<exists>w'. download_failed e p w = Inr (False, w') \<and> node_at w' p = None
     \<and> (effects (trace w') = effects (trace w) \<or> effects (trace w') = effects (trace w) @ [Remove p])
     \<and> get_urls (trace w') = get_urls (trace w)"
proof (cases "node_at w p")
  case None
  then show ?thesis
    by (simp add: download_failed_def os_path_exists_def say_simps Let_def)
next
  case (Some n)
  with assms obtain bs where "node_at w p = Some (File bs)"
    by (cases n) simp_all
  then have f: "node_at (say (if is_URLError e then UrlErrorMsg e else DownloadErrorMsg e) w) p
      = Some (File bs)"
    by (simp add: say_simps)
  from os_remove_File [OF f] obtain w' where
    "os_remove (say (if is_URLError e then UrlErrorMsg e else DownloadErrorMsg e) w) p = Inr w'"
    "node_at w' p = None"
    "trace w' = trace (say (if is_URLError e then UrlErrorMsg e else DownloadErrorMsg e) w) @ [Remove p]"
    by blast
  then show ?thesis
    using f by (simp add: download_failed_def os_path_exists_def Let_def effects_append
        get_urls_append say_simps(4,5))
qed

lemma write_chunk_File:
  assumes "node_at w p = Some (File bs)"
  shows "node_at (write_chunk p c w) p = Some (File (bs @ c))" "trace (write_chunk p c w) = trace w"
  using assms by (auto simp: write_chunk_def node_at_def split: option.splits node.splits if_splits)

lemma read_loop_File:
  assumes "node_at w p = Some (File bs)"
  shows "\<exists>w' bs'. (read_loop p tot n chunks fin w = Inr w' \<or> (\<exists>e. read_loop p tot n chunks fin w = Inl (e, w')))
     \<and> node_at w' p = Some (File bs') \<and> effects (trace w') = effects (trace w)
     \<and> get_urls (trace w') = get_urls (trace w)"
  using assms
proof (induction chunks arbitrary: w n bs)
  case Nil
  then show ?case by (cases fin) auto
next
  case (Cons c chunks)
  show ?case
  proof (cases "c = []")
    case True
    then show ?thesis using Cons.prems by auto
  next
    case False
    let ?w1 = "write_chunk p c w"
    let ?w2 = "if tot > 0 then say (Progress (n + length c) tot) ?w1 else ?w1"
    have "node_at ?w2 p = Some (File (bs @ c))"
      using write_chunk_File(1) [OF Cons.prems] by (simp add: say_simps)
    from Cons.IH [OF this, of "n + length c"]
    obtain w' bs' where "read_loop p tot (n + length c) chunks fin ?w2 = Inr w'
        \<or> (\<exists>e. read_loop p tot (n + length c) chunks fin ?w2 = Inl (e, w'))"
      "node_at w' p = Some (File bs')" "effects (trace w') = effects (trace ?w2)"
      "get_urls (trace w') = get_urls (trace ?w2)"
      by blast
    moreover have "effects (trace ?w2) = effects (trace w)" "get_urls (trace ?w2) = get_urls (trace w)"
      using write_chunk_File(2) [OF Cons.prems] by (simp_all add: say_simps)
    ultimately show ?thesis
      using False by (auto simp: Let_def)
  qed
qed

lemma open_wb_result:
  assumes "open_wb w p = Inr w2"
  shows "node_at w2 p = Some (File [])" "trace w2 = trace w"
  using assms
  by (auto simp: open_wb_def node_at_def split: if_splits)

lemma trace_update_node_at: "node_at (w\<lparr>trace := t\<rparr>) p = node_at w p"
  by (simp add: node_at_def)

lemma read_loop_fails:
  assumes "[] \<notin> set chunks"
  shows "\<exists>w'. read_loop p tot n chunks (Some e) w = Inl (e, w')"
  using assms by (induction chunks arbitrary: w n) (auto simp: Let_def)


lemma download_file_result:
  assumes "node_at w p \<noteq> Some Directory"
  shows "\<exists>ok w'. download_file pf url p w = Inr (ok, w')
     \<and> get_urls (trace w') = get_urls (trace w) @ [url]
     \<and> (effects (trace w') = effects (trace w) @ [Get url]
          \<or> effects (trace w') = effects (trace w) @ [Get url, Remove p])
     \<and> (if ok then \<exists>bs. node_at w' p = Some (File bs) else node_at w' p = None)
     \<and> (transfer_fails (urlopen pf (length (get_urls (trace w))) url) \<longrightarrow> \<not> ok)"
proof -
  let ?w1 = "w\<lparr>trace := trace w @ [Get url]\<rparr>"
  have n1: "node_at ?w1 p \<noteq> Some Directory"
    using assms by (simp add: trace_update_node_at)
  have fail: "\<exists>w'. download_failed e p ?w1 = Inr (False, w')
     \<and> get_urls (trace w') = get_urls (trace w) @ [url]
     \<and> (effects (trace w') = effects (trace w) @ [Get url]
          \<or> effects (trace w') = effects (trace w) @ [Get url, Remove p])
     \<and> node_at w' p = None" for e
    using download_failed_result [OF n1, of e] by auto
  show ?thesis
  proof (cases "urlopen pf (length (get_urls (trace w))) url")
    case (Refused e)
    then show ?thesis
      using fail [of e] by (auto simp: download_file_def Let_def)
  next
    case (Response cl chunks fin)
    show ?thesis
    proof (cases "case cl of None \<Rightarrow> Some 0 | Some s \<Rightarrow> py_int s")
      case None
      then show ?thesis
        using Response fail [of ValueError] by (auto simp: download_file_def Let_def)
    next
      case (Some tot)
      show ?thesis
      proof (cases "open_wb ?w1 p")
        case (Inl e)
        then show ?thesis
          using Response Some fail [of e] by (auto simp: download_file_def Let_def)
      next
        case (Inr w2)
        note o = open_wb_result [OF Inr]
        from read_loop_File [OF o(1), of tot 0 chunks fin]
        obtain w3 bs where r: "read_loop p tot 0 chunks fin w2 = Inr w3
            \<or> (\<exists>e. read_loop p tot 0 chunks fin w2 = Inl (e, w3))"
          and f: "node_at w3 p = Some (File bs)"
          and t: "effects (trace w3) = effects (trace w2)" "get_urls (trace w3) = get_urls (trace w2)"
          by blast
        from r show ?thesis
        proof
          assume ok: "read_loop p tot 0 chunks fin w2 = Inr w3"
          have "\<not> transfer_fails (Response cl chunks fin)"
          proof
            assume "transfer_fails (Response cl chunks fin)"
            then obtain e where "fin = Some e" "[] \<notin> set chunks" by auto
            then show False
              using read_loop_fails [of chunks p tot 0 e w2] ok by auto
          qed
          then show ?thesis
            using Response Some Inr ok f t o
            by (auto simp: download_file_def Let_def say_simps)
        next
          assume "\<exists>e. read_loop p tot 0 chunks fin w2 = Inl (e, w3)"
          then obtain e where bad: "read_loop p tot 0 chunks fin w2 = Inl (e, w3)" ..
          have "node_at w3 p \<noteq> Some Directory" using f by simp
          from download_failed_result [OF this, of e]
          show ?thesis
            using Response Some Inr bad t o
            by (auto simp: download_file_def Let_def)
        qed
      qed
    qed
  qed
qed

lemma fetch_image_result:
  assumes "node_at w p \<noteq> Some Directory"
  shows "\<exists>w'. fetch_image pf url p img w = Inr w'
     \<and> get_urls (trace w') = get_urls (trace w) @ [url]
     \<and> (effects (trace w') = effects (trace w) @ [Get url]
          \<or> effects (trace w') = effects (trace w) @ [Get url, Remove p])
     \<and> (transfer_fails (urlopen pf (length (get_urls (trace w))) url) \<longrightarrow>
          node_at w' p = None \<and> last (trace w') = Print DownloadFailed)"
proof -
  let ?w0 = "say (Downloading (filename img)) w"
  have "node_at ?w0 p \<noteq> Some Directory"
    using assms by (simp add: say_simps)
  from download_file_result [OF this, of pf url]
  obtain ok w1 where d: "download_file pf url p ?w0 = Inr (ok, w1)"
    and g: "get_urls (trace w1) = get_urls (trace w) @ [url]"
    and e: "effects (trace w1) = effects (trace w) @ [Get url]
          \<or> effects (trace w1) = effects (trace w) @ [Get url, Remove p]"
    and n: "if ok then \<exists>bs. node_at w1 p = Some (File bs) else node_at w1 p = None"
    and f: "transfer_fails (urlopen pf (length (get_urls (trace w))) url) \<longrightarrow> \<not> ok"
    by (auto simp: say_simps)
  show ?thesis
  proof (cases ok)
    case False
    then show ?thesis
      using d g e n by (simp add: fetch_image_def say_simps)
  next
    case True
    obtain v w2 where v: "validate_md5 pf p (md5 img) (say DownloadedOk w1) = (v, w2)"
      by (cases "validate_md5 pf p (md5 img) (say DownloadedOk w1)")
    have "effects (trace w2) = effects (trace w1)" "get_urls (trace w2) = get_urls (trace w1)"
      using validate_md5_frame(3,4) [of pf p "md5 img" "say DownloadedOk w1"] v
      by (simp_all add: say_simps)
    then show ?thesis
      using True d g e f v by (simp add: fetch_image_def say_simps)
  qed
qed



subsection \<open>One image\<close>

lemma download_image_valid:
  assumes "node_at (snd (create_directory (os_path_dirname (construct_output_path base release img)) w))
             (construct_output_path base release img) = Some (File bs)"
    and "lower (md5_hexdigest pf bs) = lower (md5 img)"
  shows "\<exists>w'. download_image pf base release img w = Inr w'
     \<and> get_urls (trace w') = get_urls (trace w)
     \<and> effects (trace w') = effects (trace w)
     \<and> node_at w' (construct_output_path base release img) = Some (File bs)
     \<and> last (trace w') = Print AlreadyDownloaded"
proof -
  let ?p = "construct_output_path base release img"
  let ?w1 = "snd (create_directory (os_path_dirname ?p) w)"
  let ?w2 = "say (Checking (filename img)) ?w1"
  note n1 = assms(1)
  then have ex: "os_path_exists ?w1 ?p"
    by (simp add: os_path_exists_def)
  obtain v w3 where v: "validate_md5 pf ?p (md5 img) ?w2 = (v, w3)"
    by (cases "validate_md5 pf ?p (md5 img) ?w2")
  have "v"
    using fst_validate_md5 [of pf ?p "md5 img" ?w2] v n1 assms(2)
    by (simp add: say_simps digest_at_def)
  moreover have "node_at w3 ?p = Some (File bs)" "effects (trace w3) = effects (trace w)"
    "get_urls (trace w3) = get_urls (trace w)"
    using validate_md5_frame(2,3,4) [of pf ?p "md5 img" ?w2] v n1
    by (simp_all add: say_simps create_directory_trace)
  ultimately show ?thesis
    using ex v by (simp add: download_image_def Let_def say_simps)
qed

lemma download_image_stale:
  assumes "node_at (snd (create_directory (os_path_dirname (construct_output_path base release img)) w))
             (construct_output_path base release img) = Some (File bs)"
    and "lower (md5_hexdigest pf bs) \<noteq> lower (md5 img)"
  shows "\<exists>w0. download_image pf base release img w
         = fetch_image pf (construct_url release img) (construct_output_path base release img) img w0
     \<and> node_at w0 (construct_output_path base release img) = None
     \<and> get_urls (trace w0) = get_urls (trace w)
     \<and> effects (trace w0) = effects (trace w) @ [Remove (construct_output_path base release img)]"
proof -
  let ?p = "construct_output_path base release img"
  let ?u = "construct_url release img"
  let ?w1 = "snd (create_directory (os_path_dirname ?p) w)"
  let ?w2 = "say (Checking (filename img)) ?w1"
  note n1 = assms(1)
  then have ex: "os_path_exists ?w1 ?p"
    by (simp add: os_path_exists_def)
  obtain v w3 where v: "validate_md5 pf ?p (md5 img) ?w2 = (v, w3)"
    by (cases "validate_md5 pf ?p (md5 img) ?w2")
  have nv: "\<not> v"
    using fst_validate_md5 [of pf ?p "md5 img" ?w2] v n1 assms(2)
    by (simp add: say_simps digest_at_def)
  have f3: "node_at w3 ?p = Some (File bs)" "effects (trace w3) = effects (trace w)"
    "get_urls (trace w3) = get_urls (trace w)"
    using validate_md5_frame(2,3,4) [of pf ?p "md5 img" ?w2] v n1
    by (simp_all add: say_simps create_directory_trace)
  then have "node_at (say ReDownloading w3) ?p = Some (File bs)"
    by (simp add: say_simps)
  from os_remove_File [OF this]
  obtain w4 where r: "os_remove (say ReDownloading w3) ?p = Inr w4" "node_at w4 ?p = None"
    "trace w4 = trace (say ReDownloading w3) @ [Remove ?p]"
    by blast
  then have t4: "effects (trace w4) = effects (trace w) @ [Remove ?p]"
    "get_urls (trace w4) = get_urls (trace w)"
    using f3 by (simp_all add: say_simps(4,5))
  have "download_image pf base release img w = fetch_image pf ?u ?p img w4"
    using ex v nv r(1) by (simp add: download_image_def Let_def)
  then show ?thesis
    using r(2) t4 by blast
qed


lemma stored_path:
  "construct_output_path ''out'' stable_release (fw_image\<lparr>md5 := m\<rparr>) = ''out/stable/2024-01-01/v2/fw.bin''"
  "construct_url stable_release (fw_image\<lparr>md5 := m\<rparr>) = ''https://fw.example.com/sleepbuds/fw.bin''"
  by (simp_all add: construct_output_path_def construct_url_def stable_release_def fw_image_def)

lemma stored_node:
  "node_at (stored_world c) ''out/stable/2024-01-01/v2/fw.bin'' = Some (File c)"
  by (simp add: node_at_def resolve_def wants_dir_def stored_world_def)

text \<open>
  Claim C3. When the destination is a file whose digest equals the image's \<open>md5\<close>, letter
  case aside, the procedure for the image ends without an exception, sends no request,
  removes nothing, leaves the file as it is, and its last line is "Already downloaded
  (MD5 valid)".
\<close>

theorem valid_file_skipped:
  assumes "node_at w (construct_output_path base release img) = Some (File bs)"
    and "lower (md5_hexdigest pf bs) = lower (md5 img)"
  shows "\<exists>w'. download_image pf base release img w = Inr w'
     \<and> get_urls (trace w') = get_urls (trace w)
     \<and> effects (trace w') = effects (trace w)
     \<and> node_at w' (construct_output_path base release img) = Some (File bs)
     \<and> last (trace w') = Print AlreadyDownloaded"
proof -
  have "node_at (snd (create_directory (os_path_dirname (construct_output_path base release img)) w))
          (construct_output_path base release img) = Some (File bs)"
    using create_directory_node_at [of w "construct_output_path base release img"] assms(1) by simp
  then show ?thesis
    using assms(2) by (rule download_image_valid)
qed

theorem valid_file_skipped_witness:
  "node_at (stored_world ''abc'')
      (construct_output_path ''out'' stable_release (fw_image\<lparr>md5 := ''900150983CD24FB0D6963F7D28E17F72''\<rparr>))
     = Some (File ''abc'')
   \<and> lower (md5_hexdigest sample_platform ''abc'') = lower ''900150983CD24FB0D6963F7D28E17F72''
   \<and> (\<exists>w'. download_image sample_platform ''out'' stable_release
              (fw_image\<lparr>md5 := ''900150983CD24FB0D6963F7D28E17F72''\<rparr>) (stored_world ''abc'') = Inr w'
        \<and> get_urls (trace w') = [] \<and> effects (trace w') = []
        \<and> node_at w' ''out/stable/2024-01-01/v2/fw.bin'' = Some (File ''abc'')
        \<and> last (trace w') = Print AlreadyDownloaded)"
proof -
  let ?img = "fw_image\<lparr>md5 := ''900150983CD24FB0D6963F7D28E17F72''\<rparr>"
  have h1: "node_at (stored_world ''abc'') (construct_output_path ''out'' stable_release ?img)
      = Some (File ''abc'')"
    by (simp only: stored_path stored_node)
  have h2: "lower (md5_hexdigest sample_platform ''abc'') = lower (md5 ?img)"
    by code_simp
  have t: "trace (stored_world ''abc'') = []"
    by (simp add: stored_world_def)
  from valid_file_skipped [OF h1 h2] show ?thesis
    using h1 h2 by (simp add: stored_path t)
qed

text \<open>
  Claim C4. When the destination is a file whose digest differs from the image's \<open>md5\<close>,
  the procedure for the image ends without an exception, removes the file and then sends
  exactly one request, for the image's URL; the only thing that can follow is the removal
  of what a failed transfer has written.
\<close>

theorem stale_file_replaced:
  assumes "node_at w (construct_output_path base release img) = Some (File bs)"
    and "lower (md5_hexdigest pf bs) \<noteq> lower (md5 img)"
  shows "\<exists>w'. download_image pf base release img w = Inr w'
     \<and> get_urls (trace w') = get_urls (trace w) @ [construct_url release img]
     \<and> (effects (trace w') = effects (trace w)
            @ [Remove (construct_output_path base release img), Get (construct_url release img)]
         \<or> effects (trace w') = effects (trace w)
            @ [Remove (construct_output_path base release img), Get (construct_url release img),
               Remove (construct_output_path base release img)])"
proof -
  let ?p = "construct_output_path base release img"
  let ?u = "construct_url release img"
  have "node_at (snd (create_directory (os_path_dirname ?p) w)) ?p = Some (File bs)"
    using create_directory_node_at [of w ?p] assms(1) by simp
  from download_image_stale [OF this assms(2)]
  obtain w0 where w0: "download_image pf base release img w = fetch_image pf ?u ?p img w0"
    "node_at w0 ?p = None" "get_urls (trace w0) = get_urls (trace w)"
    "effects (trace w0) = effects (trace w) @ [Remove ?p]"
    by blast
  have "node_at w0 ?p \<noteq> Some Directory"
    using w0(2) by simp
  from fetch_image_result [OF this, of pf ?u img]
  obtain w' where "fetch_image pf ?u ?p img w0 = Inr w'"
    "get_urls (trace w') = get_urls (trace w0) @ [?u]"
    "effects (trace w') = effects (trace w0) @ [Get ?u]
       \<or> effects (trace w') = effects (trace w0) @ [Get ?u, Remove ?p]"
    by blast
  then show ?thesis
    using w0 by auto
qed

theorem stale_file_replaced_witness:
  "node_at (stored_world ''a'') (construct_output_path ''out'' stable_release fw_image) = Some (File ''a'')
   \<and> lower (md5_hexdigest sample_platform ''a'') \<noteq> lower (md5 fw_image)
   \<and> (\<exists>w'. download_image sample_platform ''out'' stable_release fw_image (stored_world ''a'') = Inr w'
        \<and> get_urls (trace w') = [''https://fw.example.com/sleepbuds/fw.bin'']
        \<and> (effects (trace w') = [Remove ''out/stable/2024-01-01/v2/fw.bin'',
                                   Get ''https://fw.example.com/sleepbuds/fw.bin'']
            \<or> effects (trace w') = [Remove ''out/stable/2024-01-01/v2/fw.bin'',
                                   Get ''https://fw.example.com/sleepbuds/fw.bin'',
                                   Remove ''out/stable/2024-01-01/v2/fw.bin'']))"
proof -
  have p: "construct_output_path ''out'' stable_release fw_image = ''out/stable/2024-01-01/v2/fw.bin''"
    "construct_url stable_release fw_image = ''https://fw.example.com/sleepbuds/fw.bin''"
    by (simp_all add: construct_output_path_def construct_url_def stable_release_def fw_image_def)
  have h1: "node_at (stored_world ''a'') (construct_output_path ''out'' stable_release fw_image)
      = Some (File ''a'')"
    by (simp only: p stored_node)
  have h2: "lower (md5_hexdigest sample_platform ''a'') \<noteq> lower (md5 fw_image)"
    by code_simp
  have t: "trace (stored_world ''a'') = []"
    by (simp add: stored_world_def)
  from stale_file_replaced [OF h1 h2] show ?thesis
    using h1 h2 by (simp add: p t)
qed







subsection \<open>An image without a digest\<close>

lemma lower_Nil_iff: "lower s = lower [] \<longleftrightarrow> s = []"
  by (simp add: lower_def)

text \<open>
  Claim C10. \<open>hexdigest\<close> never returns the empty string. Then: \<open>calculate_md5\<close> returns
  the empty string when the file cannot be read; \<open>validate_md5\<close> compares the lower-case
  forms of the two digests; with the empty string as the expected digest it answers true
  exactly when the file cannot be read, and false for every file that can be read; and
  an image whose \<open>md5\<close> is empty and whose file is there has the file removed and
  requested again, in every run.
\<close>

theorem empty_md5_valid_iff_unreadable:
  assumes "\<forall>bs. md5_hexdigest pf bs \<noteq> []"
  shows "(\<forall>e. read_file w p = Inl e \<longrightarrow> fst (calculate_md5 pf p w) = [])
     \<and> fst (validate_md5 pf p x w) = (lower (fst (calculate_md5 pf p w)) = lower x)
     \<and> fst (validate_md5 pf p [] w) = (\<exists>e. read_file w p = Inl e)
     \<and> ((\<exists>bs. read_file w p = Inr bs) \<longrightarrow> \<not> fst (validate_md5 pf p [] w))
     \<and> (md5 img = [] \<and> node_at ws (construct_output_path base release img) = Some (File bs) \<longrightarrow>
          (\<exists>w'. download_image pf base release img ws = Inr w'
             \<and> get_urls (trace w') = get_urls (trace ws) @ [construct_url release img]
             \<and> prefix (effects (trace ws)
                  @ [Remove (construct_output_path base release img), Get (construct_url release img)])
                 (effects (trace w'))))"
proof -
  have c: "fst (calculate_md5 pf p w) = (case read_file w p of Inl e \<Rightarrow> [] | Inr bs \<Rightarrow> md5_hexdigest pf bs)"
    by (simp add: calculate_md5_def split: sum.splits)
  have v: "fst (validate_md5 pf p x w) = (lower (fst (calculate_md5 pf p w)) = lower x)" for x
    by (cases "calculate_md5 pf p w") (simp add: validate_md5_def Let_def)
  have e: "fst (validate_md5 pf p [] w) = (\<exists>e. read_file w p = Inl e)"
    using assms by (cases "read_file w p") (simp_all add: v c lower_Nil_iff)
  have r: "\<exists>w'. download_image pf base release img ws = Inr w'
             \<and> get_urls (trace w') = get_urls (trace ws) @ [construct_url release img]
             \<and> prefix (effects (trace ws)
                  @ [Remove (construct_output_path base release img), Get (construct_url release img)])
                 (effects (trace w'))"
    if m: "md5 img = []" and f: "node_at ws (construct_output_path base release img) = Some (File bs)"
  proof -
    let ?p = "construct_output_path base release img"
    let ?u = "construct_url release img"
    have ne: "lower (md5_hexdigest pf bs) \<noteq> lower (md5 img)"
      using assms m by (simp add: lower_Nil_iff)
    have "node_at (snd (create_directory (os_path_dirname ?p) ws)) ?p = Some (File bs)"
      using create_directory_node_at [of ws ?p] f by simp
    from download_image_stale [OF this ne]
    obtain w0 where w0: "download_image pf base release img ws = fetch_image pf ?u ?p img w0"
      "node_at w0 ?p = None" "get_urls (trace w0) = get_urls (trace ws)"
      "effects (trace w0) = effects (trace ws) @ [Remove ?p]"
      by blast
    have "node_at w0 ?p \<noteq> Some Directory"
      using w0(2) by simp
    from fetch_image_result [OF this, of pf ?u img]
    obtain w' where "fetch_image pf ?u ?p img w0 = Inr w'"
      "get_urls (trace w') = get_urls (trace w0) @ [?u]"
      "effects (trace w') = effects (trace w0) @ [Get ?u]
         \<or> effects (trace w') = effects (trace w0) @ [Get ?u, Remove ?p]"
      by blast
    then show ?thesis
      using w0 by (auto simp: prefix_def)
  qed
  show ?thesis
    using c v e r by (auto split: sum.splits)
qed

theorem empty_md5_valid_iff_unreadable_witness:
  "(\<forall>bs. md5_hexdigest sample_platform bs \<noteq> [])
   \<and> read_file (stored_world ''abc'') ''out/stable/2024-01-01/v2'' = Inl IsADirectoryError
   \<and> fst (validate_md5 sample_platform ''out/stable/2024-01-01/v2'' [] (stored_world ''abc''))
   \<and> read_file (stored_world ''abc'') ''out/stable/2024-01-01/v2/fw.bin'' = Inr ''abc''
   \<and> \<not> fst (validate_md5 sample_platform ''out/stable/2024-01-01/v2/fw.bin'' [] (stored_world ''abc''))
   \<and> md5 (fw_image\<lparr>md5 := []\<rparr>) = []
   \<and> node_at (stored_world ''abc'') (construct_output_path ''out'' stable_release (fw_image\<lparr>md5 := []\<rparr>))
       = Some (File ''abc'')
   \<and> (\<exists>w'. download_image sample_platform ''out'' stable_release (fw_image\<lparr>md5 := []\<rparr>)
              (stored_world ''abc'') = Inr w'
        \<and> get_urls (trace w') = [''https://fw.example.com/sleepbuds/fw.bin''])"
proof -
  have h: "\<forall>bs. md5_hexdigest sample_platform bs \<noteq> []"
    by (simp add: sample_platform_def sample_md5_def)
  have d: "read_file (stored_world ''abc'') ''out/stable/2024-01-01/v2'' = Inl IsADirectoryError"
    by code_simp
  have f: "read_file (stored_world ''abc'') ''out/stable/2024-01-01/v2/fw.bin'' = Inr ''abc''"
    by code_simp
  have n: "node_at (stored_world ''abc'') (construct_output_path ''out'' stable_release (fw_image\<lparr>md5 := []\<rparr>))
       = Some (File ''abc'')"
    by (simp only: stored_path stored_node)
  have t: "trace (stored_world ''abc'') = []"
    by (simp add: stored_world_def)
  note t1 = empty_md5_valid_iff_unreadable [OF h, of "stored_world ''abc''" "''out/stable/2024-01-01/v2''"
      "[]" "fw_image\<lparr>md5 := []\<rparr>" "stored_world ''abc''" "''out''" stable_release "''abc''"]
  note t2 = empty_md5_valid_iff_unreadable [OF h, of "stored_world ''abc''" "''out/stable/2024-01-01/v2/fw.bin''"
      "[]" "fw_image\<lparr>md5 := []\<rparr>" "stored_world ''abc''" "''out''" stable_release "''abc''"]
  have 1: "fst (validate_md5 sample_platform ''out/stable/2024-01-01/v2'' [] (stored_world ''abc''))"
    using t1 d by blast
  have 2: "\<not> fst (validate_md5 sample_platform ''out/stable/2024-01-01/v2/fw.bin'' [] (stored_world ''abc''))"
    using t2 f by blast
  have 3: "\<exists>w'. download_image sample_platform ''out'' stable_release (fw_image\<lparr>md5 := []\<rparr>)
              (stored_world ''abc'') = Inr w'
        \<and> get_urls (trace w') = [''https://fw.example.com/sleepbuds/fw.bin'']"
    using t1 n by (auto simp: t stored_path)
  show ?thesis
    using h d f n 1 2 3 by simp
qed

section \<open>Properties of the run\<close>

text \<open>
  What \<open>main\<close> returns: 1 when no index text has been retrieved, 1 when the index has no
  device, and otherwise 0 once \<open>download_all\<close> has returned. A transport error gives no
  index text, after one request.
\<close>

lemma main_no_index:
  assumes "download_index_xml pf (index_url_of argv) (startup (index_url_of argv) (output_dir_of argv) w) = ([], w3)"
  shows "main pf argv w = Inr (1, say FailedIndex w3)"
  using assms by (simp add: main_def Let_def)

lemma main_no_devices:
  assumes "download_index_xml pf (index_url_of argv) (startup (index_url_of argv) (output_dir_of argv) w) = (xml, w3)"
    and "xml \<noteq> []" and "parse_from_string pf xml = Inr (index, printed)" and "devices index = []"
  shows "main pf argv w
     = Inr (1, say NoDevices (w3\<lparr>trace := trace w3 @ Print ParsingIndex # map Print printed\<rparr>))"
  using assms by (simp add: main_def Let_def)

lemma main_downloads:
  assumes "download_index_xml pf (index_url_of argv) (startup (index_url_of argv) (output_dir_of argv) w) = (xml, w3)"
    and "xml \<noteq> []" and "parse_from_string pf xml = Inr (index, printed)" and "devices index \<noteq> []"
  shows "main pf argv w
     = (case download_all pf (output_dir_of argv) index
               (say (FoundDevices (length (devices index)))
                  (w3\<lparr>trace := trace w3 @ Print ParsingIndex # map Print printed\<rparr>)) of
          Inl x \<Rightarrow> Inl x | Inr w5 \<Rightarrow> Inr (0, w5))"
  using assms by (simp add: main_def Let_def)

lemma download_index_xml_transport_error:
  assumes "transfer_fails (urlopen pf (length (get_urls (trace w))) url)"
  shows "fst (download_index_xml pf url w) = []"
    and "get_urls (trace (snd (download_index_xml pf url w))) = get_urls (trace w) @ [url]"
  using assms
  by (cases "urlopen pf (length (get_urls (trace w))) url"; auto simp: download_index_xml_def Let_def say_simps)+

text \<open>
  Claim C1, as amended. When \<open>ET.fromstring\<close> raises, \<open>parse_from_string\<close> raises nothing:
  it prints the error and returns the index with every field at its default, which has
  no devices; a run that has retrieved such a text returns 1 and has requested nothing but
  the index. When \<open>ET.fromstring\<close> returns a tree, \<open>parse_from_string\<close> returns the index
  parsed from it and prints nothing; that index may have no devices.
\<close>

theorem parse_error_gives_empty_index:
  "(fromstring pf xml = Inl e \<longrightarrow>
      parse_from_string pf xml = Inr (FirmwareIndex_default, [ParseFailed e])
      \<and> devices FirmwareIndex_default = [])
   \<and> (fromstring pf xml = Inr root \<longrightarrow> parse_from_string pf xml = Inr (parse_root root, []))
   \<and> (download_index_xml pf (index_url_of argv) (startup (index_url_of argv) (output_dir_of argv) w)
         = (xml, w3)
       \<and> fromstring pf xml = Inl e \<longrightarrow>
      (\<exists>w'. main pf argv w = Inr (1, w') \<and> effects (trace w') = effects (trace w3)))"
proof -
  have p: "parse_from_string pf xml = Inr (FirmwareIndex_default, [ParseFailed e])"
    if "fromstring pf xml = Inl e"
    using that by (simp add: parse_from_string_def)
  have d: "devices FirmwareIndex_default = []"
    by (simp add: FirmwareIndex_default_def)
  have m: "\<exists>w'. main pf argv w = Inr (1, w') \<and> effects (trace w') = effects (trace w3)"
    if i: "download_index_xml pf (index_url_of argv) (startup (index_url_of argv) (output_dir_of argv) w)
         = (xml, w3)" and f: "fromstring pf xml = Inl e"
  proof (cases "xml = []")
    case True
    then show ?thesis
      using main_no_index [of pf argv w w3] i by (simp add: say_simps)
  next
    case False
    from main_no_devices [OF i False p [OF f] d] show ?thesis
      by (simp add: say_simps)
  qed
  show ?thesis
    using p d m by (simp add: parse_from_string_def)
qed

theorem parse_error_gives_empty_index_witness:
  "(fromstring sample_platform ''<INDEX'' = Inl ParseError
    \<and> parse_from_string sample_platform ''<INDEX'' = Inr (FirmwareIndex_default, [ParseFailed ParseError])
    \<and> fst (download_index_xml sample_platform (index_url_of [''main.py'', ''https://fw.example.com/cut.xml'', ''out''])
          (startup (index_url_of [''main.py'', ''https://fw.example.com/cut.xml'', ''out''])
             (output_dir_of [''main.py'', ''https://fw.example.com/cut.xml'', ''out'']) empty_world))
        = ''<INDEX''
    \<and> (\<exists>w'. main sample_platform [''main.py'', ''https://fw.example.com/cut.xml'', ''out''] empty_world
              = Inr (1, w')
          \<and> effects (trace w') = [Get ''https://fw.example.com/cut.xml'']))
   \<and> (fromstring sample_platform ''<INDEX/>'' = Inr (Element ''INDEX'' [] [])
    \<and> parse_from_string sample_platform ''<INDEX/>'' = Inr (parse_root (Element ''INDEX'' [] []), [])
    \<and> devices (parse_root (Element ''INDEX'' [] [])) = [])"
proof -
  let ?argv = "[''main.py'', ''https://fw.example.com/cut.xml'', ''out'']"
  let ?d = "download_index_xml sample_platform (index_url_of ?argv)
          (startup (index_url_of ?argv) (output_dir_of ?argv) empty_world)"
  have f1: "fromstring sample_platform ''<INDEX'' = Inl ParseError"
    by (simp add: sample_platform_def sample_fromstring_def catalog_xml_def nofile_xml_def)
  have f2: "fromstring sample_platform ''<INDEX/>'' = Inr (Element ''INDEX'' [] [])"
    by (simp add: sample_platform_def sample_fromstring_def catalog_xml_def nofile_xml_def)
  have x: "fst ?d = ''<INDEX''"
    by code_simp
  then have i: "?d = (''<INDEX'', snd ?d)"
    by (metis prod.collapse)
  have t: "effects (trace (snd ?d)) = [Get ''https://fw.example.com/cut.xml'']"
    by code_simp
  note t1 = parse_error_gives_empty_index [of sample_platform "''<INDEX''" ParseError
      "Element ''INDEX'' [] []" ?argv empty_world "snd ?d"]
  note t2 = parse_error_gives_empty_index [of sample_platform "''<INDEX/>''" ParseError
      "Element ''INDEX'' [] []" ?argv empty_world "snd ?d"]
  have 1: "parse_from_string sample_platform ''<INDEX'' = Inr (FirmwareIndex_default, [ParseFailed ParseError])"
    using t1 f1 by blast
  have 2: "\<exists>w'. main sample_platform ?argv empty_world = Inr (1, w')
          \<and> effects (trace w') = [Get ''https://fw.example.com/cut.xml'']"
    using t1 f1 i t by auto
  have 3: "parse_from_string sample_platform ''<INDEX/>'' = Inr (parse_root (Element ''INDEX'' [] []), [])"
    using t2 f2 by blast
  have 4: "devices (parse_root (Element ''INDEX'' [] [])) = []"
    by (simp add: parse_root_def)
  show ?thesis
    using f1 f2 x 1 2 3 4 by blast
qed

text \<open>
  The claim as it stands says that the parse fails with a parse error. It does not: for the
  text \<open><INDEX\<close>, which is cut off, the caller gets the very index it gets for the
  well-formed \<open><INDEX/>\<close>.
\<close>

theorem parse_error_not_raised_counterexample:
  "fromstring sample_platform ''<INDEX'' = Inl ParseError
   \<and> parse_from_string sample_platform ''<INDEX'' \<noteq> Inl ParseError
   \<and> parse_from_string sample_platform ''<INDEX'' = Inr (FirmwareIndex_default, [ParseFailed ParseError])
   \<and> parse_from_string sample_platform ''<INDEX/>'' = Inr (FirmwareIndex_default, [])"
  by (simp add: parse_from_string_def sample_platform_def sample_fromstring_def catalog_xml_def
      nofile_xml_def parse_root_def FirmwareIndex_default_def get_def)

text \<open>
  Claim C5 says that the run returns a failure status when the index cannot be retrieved
  or has no device, and otherwise a success status after every image has been attempted.
  The lemmas above give the first half and the status 0 whenever \<open>download_all\<close> returns.
  It need not return. In the catalog \<open>nofile_xml\<close> the first image has no \<open>FILENAME\<close>, so
  its destination is the directory of the release, which the run has just created;
  \<open>calculate_md5\<close> cannot read it, the digest does not match, and \<open>os.remove\<close> raises
  \<open>IsADirectoryError\<close>, which nothing catches. The index had been retrieved and has one
  device; the second image, \<open>fw.bin\<close>, is never requested.
\<close>

theorem main_missing_filename_raises:
  "fromstring sample_platform nofile_xml = Inr nofile_root
   \<and> length (devices (parse_root nofile_root)) = 1
   \<and> map filename (all_images (parse_root nofile_root)) = ['''', ''fw.bin'']
   \<and> (case main sample_platform [''main.py'', ''https://fw.example.com/nofile.xml'', ''out''] empty_world of
        Inl (e, w) \<Rightarrow> e = IsADirectoryError
                      \<and> effects (trace w) = [Get ''https://fw.example.com/nofile.xml'']
                      \<and> last (trace w) = Print ReDownloading
      | Inr (status, w) \<Rightarrow> False)"
  by code_simp


end
